theory Spec2Isabelle
  imports Complex_Main "HOL-Library.Word"
begin

unbundle bit_operations_syntax

section \<open>Geofences (geofence.go)\<close>

text \<open>
  A \<open>Geofence\<close> is a point on the Earth with an accuracy radius. The three
  \<open>float64\<close> fields are modelled as real numbers: the comparisons of
  \<open>Intersection\<close> are embedded exactly as written, rounding and NaN are outside
  the model.
\<close>

record Geofence =
  Latitude :: real
  Longitude :: real
  Radius :: real

text \<open>\<open>SetIntersection\<close> is a Go \<open>uint\<close>; the three flags are \<open>1 << iota\<close>.\<close>

type_synonym SetIntersection = "64 word"

definition IsDisjoint :: SetIntersection where
  "IsDisjoint = push_bit 0 1"

definition IsSubset :: SetIntersection where
  "IsSubset = push_bit 1 1"

definition IsSuperset :: SetIntersection where
  "IsSuperset = push_bit 2 1"

text \<open>
  \<open>geo.NewPoint(lat, lng)\<close> of the library golang-geo is a pair of coordinates. The
  library's \<open>GreatCircleDistance\<close> (kilometres between two points) is not part of the
  repository: it is the parameter \<open>kmBetween\<close> of \<open>Intersection\<close>.
\<close>

type_synonym Point = "real \<times> real"

definition NewPoint :: "real \<Rightarrow> real \<Rightarrow> Point" where
  "NewPoint lat lng = (lat, lng)"

definition Intersection :: "(Point \<Rightarrow> Point \<Rightarrow> real) \<Rightarrow> Geofence \<Rightarrow> Geofence \<Rightarrow> SetIntersection" where
  "Intersection kmBetween mi tu =
     (let miPoint = NewPoint (Latitude mi) (Longitude mi);
          tuPoint = NewPoint (Latitude tu) (Longitude tu);
          distance = kmBetween miPoint tuPoint * 1000;
          ourRadius = Radius mi + Radius tu
      in if ourRadius > distance then IsDisjoint
         else
           (let i0 = (0 :: SetIntersection);
                i1 = (if Radius mi - Radius tu > distance then i0 OR IsSuperset else i0);
                i2 = (if Radius tu - Radius mi > distance then i1 OR IsSubset else i1)
            in i2))"

text \<open>The distance in metres that \<open>Intersection\<close> compares the radii with.\<close>

definition distance_m :: "(Point \<Rightarrow> Point \<Rightarrow> real) \<Rightarrow> Geofence \<Rightarrow> Geofence \<Rightarrow> real" where
  "distance_m kmBetween mi tu =
     kmBetween (NewPoint (Latitude mi) (Longitude mi)) (NewPoint (Latitude tu) (Longitude tu)) * 1000"

section \<open>Go library functions used by the rule engine\<close>

text \<open>
  Go strings are byte sequences: \<open>string\<close>. The functions of package \<open>strings\<close> that
  the code calls work on these bytes, decoding UTF-8 where Go does.
\<close>

definition IndexByte :: "string \<Rightarrow> char \<Rightarrow> int" where
  "IndexByte s c = (if c \<in> set s then int (length (takeWhile (\<lambda>x. x \<noteq> c) s)) else - 1)"

text \<open>
  \<open>strings.TrimSpace\<close> removes, at both ends, the runes with the Unicode property
  White_Space (\<open>unicode.IsSpace\<close>): the six ASCII ones, U+0085 and U+00A0 (two bytes
  in UTF-8), and U+1680, U+2000 to U+200A, U+2028, U+2029, U+202F, U+205F and U+3000
  (three bytes). A byte that does not start a valid encoding decodes to the replacement
  rune, which is no space, and stops the trimming.
\<close>

definition asciiSpace :: "char \<Rightarrow> bool" where
  "asciiSpace c =
     (c = CHR 0x09 \<or> c = CHR 0x0A \<or> c = CHR 0x0B \<or> c = CHR 0x0C \<or> c = CHR 0x0D \<or> c = CHR 0x20)"

definition isSpace2 :: "char \<Rightarrow> char \<Rightarrow> bool" where
  "isSpace2 a b = (a = CHR 0xC2 \<and> (b = CHR 0x85 \<or> b = CHR 0xA0))"

definition isSpace3 :: "char \<Rightarrow> char \<Rightarrow> char \<Rightarrow> bool" where
  "isSpace3 a b c =
     ((a = CHR 0xE1 \<and> b = CHR 0x9A \<and> c = CHR 0x80) \<or>
      (a = CHR 0xE2 \<and> b = CHR 0x80 \<and>
         ((128 \<le> (of_char c :: nat) \<and> (of_char c :: nat) \<le> 138) \<or>
          c = CHR 0xA8 \<or> c = CHR 0xA9 \<or> c = CHR 0xAF)) \<or>
      (a = CHR 0xE2 \<and> b = CHR 0x81 \<and> c = CHR 0x9F) \<or>
      (a = CHR 0xE3 \<and> b = CHR 0x80 \<and> c = CHR 0x80))"

text \<open>
  The spaces at the front of a string are dropped rune by rune. With \<open>backwards\<close>
  the string is read from its end (\<open>DecodeLastRuneInString\<close>), so the bytes of a rune
  come last byte first.
\<close>

fun dropSpaces :: "bool \<Rightarrow> string \<Rightarrow> string" where
  "dropSpaces backwards (a # b # c # rest) =
     (if asciiSpace a then dropSpaces backwards (b # c # rest)
      else if (if backwards then isSpace2 b a else isSpace2 a b)
        then dropSpaces backwards (c # rest)
      else if (if backwards then isSpace3 c b a else isSpace3 a b c)
        then dropSpaces backwards rest
      else a # b # c # rest)"
| "dropSpaces backwards [a, b] =
     (if asciiSpace a then dropSpaces backwards [b]
      else if (if backwards then isSpace2 b a else isSpace2 a b) then []
      else [a, b])"
| "dropSpaces backwards [a] = (if asciiSpace a then [] else [a])"
| "dropSpaces backwards [] = []"

definition TrimSpace :: "string \<Rightarrow> string" where
  "TrimSpace s = rev (dropSpaces True (rev (dropSpaces False s)))"

definition toLowerByte :: "char \<Rightarrow> char" where
  "toLowerByte c =
     (let n = (of_char c :: nat) in if 65 \<le> n \<and> n \<le> 90 then char_of (n + 32) else c)"

text \<open>\<open>strings.Split(text, "\n")\<close>: the pieces between line feeds, at least one.\<close>

fun SplitLines :: "string \<Rightarrow> string list" where
  "SplitLines [] = [[]]"
| "SplitLines (c # cs) =
     (if c = CHR 0x0A then [] # SplitLines cs
      else (case SplitLines cs of
              [] \<Rightarrow> [[c]]
            | l # ls \<Rightarrow> (c # l) # ls))"

text \<open>\<open>strings.Join(items, "\n")\<close>.\<close>

fun JoinLines :: "string list \<Rightarrow> string" where
  "JoinLines [] = []"
| "JoinLines [l] = l"
| "JoinLines (l # ls) = l @ [CHR 0x0A] @ JoinLines ls"

text \<open>
  \<open>strings.Replace(s, old, new, -1)\<close> for a non-empty \<open>old\<close>: every
  non-overlapping occurrence, left to right. \<open>skip\<close> counts the bytes of an occurrence
  still to be dropped.
\<close>

fun ReplaceFrom :: "nat \<Rightarrow> string \<Rightarrow> string \<Rightarrow> string \<Rightarrow> string" where
  "ReplaceFrom skip [] old new = []"
| "ReplaceFrom (Suc k) (c # cs) old new = ReplaceFrom k cs old new"
| "ReplaceFrom 0 (c # cs) old new =
     (if old \<noteq> [] \<and> take (length old) (c # cs) = old
      then new @ ReplaceFrom (length old - 1) cs old new
      else c # ReplaceFrom 0 cs old new)"

definition Replace :: "string \<Rightarrow> string \<Rightarrow> string \<Rightarrow> string" where
  "Replace s old new = ReplaceFrom 0 s old new"

text \<open>\<open>strconv.Itoa\<close> on a count, which is never negative.\<close>

fun Itoa :: "nat \<Rightarrow> string" where
  "Itoa n =
     (if n < 10 then [char_of (48 + n)]
      else Itoa (n div 10) @ [char_of (48 + n mod 10)])"

declare Itoa.simps [simp del]

subsection \<open>Package net: addresses and networks\<close>

text \<open>
  \<open>net.IP\<close> and \<open>net.IPMask\<close> are byte slices of length 4 or 16; \<open>IPNet\<close> is
  a network number with its mask. \<open>To4\<close>, \<open>Equal\<close> and \<open>Contains\<close> follow the
  standard library; a \<open>nil\<close> result is \<open>None\<close> (or the empty slice where only the
  length is read).
\<close>

type_synonym IP = "8 word list"

record IPNet =
  NetIP :: IP
  Mask :: "8 word list"

definition v4InV6Prefix :: "8 word list" where
  "v4InV6Prefix = [0, 0, 0, 0, 0, 0, 0, 0, 0, 0, 0xff, 0xff]"

definition To4 :: "IP \<Rightarrow> IP option" where
  "To4 ip =
     (if length ip = 4 then Some ip
      else if length ip = 16 \<and> take 12 ip = v4InV6Prefix then Some (drop 12 ip)
      else None)"

definition Equal :: "IP \<Rightarrow> IP \<Rightarrow> bool" where
  "Equal ip x =
     (if length ip = length x then ip = x
      else if length ip = 4 \<and> length x = 16 then take 12 x = v4InV6Prefix \<and> ip = drop 12 x
      else if length ip = 16 \<and> length x = 4 then take 12 ip = v4InV6Prefix \<and> drop 12 ip = x
      else False)"

definition networkNumberAndMask :: "IPNet \<Rightarrow> IP \<times> 8 word list" where
  "networkNumberAndMask n =
     (let ip = (case To4 (NetIP n) of Some ip4 \<Rightarrow> ip4 | None \<Rightarrow> NetIP n);
          m = Mask n
      in if To4 (NetIP n) = None \<and> length ip \<noteq> 16 then ([], [])
         else if length m = 4 then (if length ip \<noteq> 4 then ([], []) else (ip, m))
         else if length m = 16 then (if length ip = 4 then (ip, drop 12 m) else (ip, m))
         else ([], []))"

definition Contains :: "IPNet \<Rightarrow> IP \<Rightarrow> bool" where
  "Contains n ip0 =
     (let (nn, m) = networkNumberAndMask n;
          ip = (case To4 ip0 of Some x \<Rightarrow> x | None \<Rightarrow> ip0);
          l = length ip
      in if l \<noteq> length nn then False
         else list_all (\<lambda>i. (nn ! i) AND (m ! i) = (ip ! i) AND (m ! i)) [0..<l])"

subsection \<open>The library functions taken as parameters\<close>

text \<open>
  DNS resolution, parsing and printing of addresses and floats, the regular
  expression engine, the great-circle distance and the case folding of Unicode are
  outside the repository. They are
  the fields of \<open>golib\<close>; a Go \<open>error\<close> is its message, and a compiled
  \<open>*regexp.Regexp\<close> is identified with its source text (what \<open>Regexp.String\<close>
  returns). \<open>geofence_FindStringSubmatch\<close> is \<open>geofenceRegexp.FindStringSubmatch\<close>:
  the empty list when the line does not match, else the match and its four groups.
\<close>

record golib =
  LookupIP :: "string \<Rightarrow> IP list \<times> string option"
  LookupAddr :: "string \<Rightarrow> string list \<times> string option"
  IP_String :: "IP \<Rightarrow> string"
  IPNet_String :: "IPNet \<Rightarrow> string"
  ParseCIDR :: "string \<Rightarrow> string + IPNet"
  ParseIP :: "string \<Rightarrow> IP option"
  regexp_Compile :: "string \<Rightarrow> string option"
  regexp_Match :: "string \<Rightarrow> string \<Rightarrow> bool"
  regexp_QuoteMeta :: "string \<Rightarrow> string"
  geofence_FindStringSubmatch :: "string \<Rightarrow> string list"
  ParseFloat :: "string \<Rightarrow> string + real"
  FormatFloat :: "real \<Rightarrow> string"
  Quote :: "string \<Rightarrow> string"
  GreatCircleDistance :: "Point \<Rightarrow> Point \<Rightarrow> real"
  Map_unicode_ToLower :: "string \<Rightarrow> string"

text \<open>
  \<open>strings.ToLower\<close> maps the bytes of an ASCII string itself; a string with a byte
  outside ASCII goes through \<open>strings.Map(unicode.ToLower, s)\<close>, which needs the
  case tables of Unicode and is a parameter.
\<close>

definition ToLower :: "golib \<Rightarrow> string \<Rightarrow> string" where
  "ToLower lib s =
     (if list_all (\<lambda>c. (of_char c :: nat) < 128) s then map toLowerByte s
      else Map_unicode_ToLower lib s)"

text \<open>\<open>regexp.MatchString(pattern, s)\<close> compiles the pattern, then matches.\<close>

definition regexp_MatchString :: "golib \<Rightarrow> string \<Rightarrow> string \<Rightarrow> string + bool" where
  "regexp_MatchString lib pattern s =
     (case regexp_Compile lib pattern of
        Some err \<Rightarrow> Inl err
      | None \<Rightarrow> Inr (regexp_Match lib pattern s))"

section \<open>Rules and blacklists (blacklist.go)\<close>

text \<open>
  The external data of an evaluation: the geolocation database and the ipcat interval
  set, each possibly \<open>nil\<close>. \<open>GeoDB.City(ip)\<close> returns a record or an error;
  \<open>IPSet.Contains(dots)\<close> returns an interval, \<open>nil\<close> or an error.
\<close>

record City =
  Location_Latitude :: real
  Location_Longitude :: real
  Location_AccuracyRadius :: "16 word"

record Interval =
  Name :: string
  URL :: string

record BlacklistContext =
  GeoDB :: "(IP \<Rightarrow> string + City) option"
  IPSet :: "(string \<Rightarrow> string + Interval option) option"

record BlacklistRule =
  Comment :: string
  Negation :: bool
  All' :: bool
  Network :: "IPNet option"
  IP :: "IP option"
  Hostname :: string
  Regexp :: "string option"
  Geofence :: "Geofence option"
  IPCat :: string

record Blacklist =
  List :: "BlacklistRule list"

text \<open>The zero value \<open>&BlacklistRule{}\<close>.\<close>

definition emptyRule :: BlacklistRule where
  "emptyRule = \<lparr>Comment = [], Negation = False, All' = False, Network = None, IP = None,
     Hostname = [], Regexp = None, Geofence = None, IPCat = []\<rparr>"

definition Add :: "Blacklist \<Rightarrow> BlacklistRule \<Rightarrow> Blacklist" where
  "Add b item = b\<lparr>List := List b @ [item]\<rparr>"

subsection \<open>Rendering\<close>

definition BlacklistRule_String :: "golib \<Rightarrow> BlacklistRule \<Rightarrow> string" where
  "BlacklistRule_String lib i =
     (let value = (if Negation i then ''!'' else [])
      in if All' i then value @ ''* # Wildcard''
         else case Network i of
           Some network \<Rightarrow> value @ IPNet_String lib network @ '' # Network''
         | None \<Rightarrow>
         (case IP i of
           Some addr \<Rightarrow> value @ IP_String lib addr @ '' # IP Address''
         | None \<Rightarrow>
         (if Hostname i \<noteq> [] then value @ Hostname i @ '' # Hostname''
          else case Regexp i of
           Some re \<Rightarrow> value @ ''~'' @ re @ '' # Regular Expression''
         | None \<Rightarrow>
         (case Geofence i of
           Some g \<Rightarrow>
             value @ ''@ '' @ FormatFloat lib (Latitude g) @ '', '' @
               FormatFloat lib (Longitude g) @ '' ('' @
               FormatFloat lib (Radius g) @ ''m) # Geofence''
         | None \<Rightarrow>
         (let value1 = (if IPCat i \<noteq> [] then value @ ''ipcat '' @ IPCat i else value);
              value2 = (if Comment i \<noteq> [] then value1 @ ''# '' @ Comment i else value1)
          in value2)))))"

definition Blacklist_String :: "golib \<Rightarrow> Blacklist \<Rightarrow> string" where
  "Blacklist_String lib b =
     (let itemCount = length (filter (\<lambda>item. Comment item = []) (List b));
          header = (if itemCount = 0 then ''# Empty blacklist''
                    else if itemCount = 1 then ''# Blacklist with 1 item''
                    else ''# Blacklist with '' @ Itoa itemCount @ '' items'')
      in JoinLines (header # map (BlacklistRule_String lib) (List b)))"

subsection \<open>ParseBlacklist\<close>

text \<open>
  A run-time panic of Go is a value: slicing a string beyond its length panics with
  "slice bounds out of range". It is the only panic that \<open>ParseBlacklist\<close> can raise.
\<close>

datatype panic = SliceBoundsOutOfRange

definition geofenceUnits :: "string \<Rightarrow> real option" where
  "geofenceUnits = map_of
     [([], 1.0), (''m'', 1.0), (''km'', 1000.0), (''mi'', 1609.0), (''ft'', 1609.0 / 5280.0)]"

text \<open>
  The branch \<open>case '@'\<close> of the switch, after \<open>line = strings.TrimSpace(line[1:])\<close>:
  the rule that is added, a geofence or a comment holding the error.
\<close>

definition parseGeofence :: "golib \<Rightarrow> BlacklistRule \<Rightarrow> string \<Rightarrow> BlacklistRule" where
  "parseGeofence lib item line =
     (let matches = geofence_FindStringSubmatch lib line
      in if length matches = 5 then
           (let latString = matches ! 1; lngString = matches ! 2;
                radiusString = matches ! 3; units = ToLower lib (matches ! 4)
            in case ParseFloat lib latString of
                 Inl err \<Rightarrow>
                   item\<lparr>Comment := ''Error: '' @ line @ '': could not parse latitude: '' @ err\<rparr>
               | Inr lat \<Rightarrow>
               (case ParseFloat lib lngString of
                 Inl err \<Rightarrow>
                   item\<lparr>Comment := ''Error: '' @ line @ '': could not parse longitude: '' @ err\<rparr>
               | Inr lng \<Rightarrow>
               (case (if radiusString \<noteq> [] then ParseFloat lib radiusString else Inr 25) of
                 Inl err \<Rightarrow>
                   item\<lparr>Comment := ''Error: '' @ line @ '': could not parse radius: '' @ err\<rparr>
               | Inr radius \<Rightarrow>
               (case geofenceUnits units of
                 None \<Rightarrow>
                   item\<lparr>Comment := ''Error: '' @ line @ '': invalid radial units: '' @ Quote lib units\<rparr>
               | Some factor \<Rightarrow>
                   item\<lparr>Geofence := Some \<lparr>Latitude = lat, Longitude = lng,
                                             Radius = radius * factor\<rparr>\<rparr>))))
         else item\<lparr>Comment := ''Error: '' @ line @
                 '': invalid format: must be <lng>, <lng> (<radius><unit>)?''\<rparr>)"

text \<open>The branch \<open>case '~'\<close>, after \<open>line = strings.TrimSpace(line[1:])\<close>.\<close>

definition parseRegexp :: "golib \<Rightarrow> BlacklistRule \<Rightarrow> string \<Rightarrow> BlacklistRule" where
  "parseRegexp lib item line =
     (case regexp_Compile lib line of
        Some err \<Rightarrow>
          item\<lparr>Comment := ''Error: '' @ line @ '': malformed regular expression: '' @ err\<rparr>
      | None \<Rightarrow> item\<lparr>Regexp := Some line\<rparr>)"

text \<open>
  The body of the loop of \<open>ParseBlacklist\<close> for one line: \<open>Inr None\<close> is a
  skipped line, \<open>Inr (Some item)\<close> the rule added, \<open>Inl p\<close> a panic. The slice
  \<open>line[:6]\<close> panics on a line of fewer than six bytes; \<open>line[0]\<close> is read only
  where the line is known not to be empty.
\<close>

definition parseLine :: "golib \<Rightarrow> string \<Rightarrow> panic + BlacklistRule option" where
  "parseLine lib line0 =
     (let commentStart = IndexByte line0 (CHR ''#'');
          line1 = (if commentStart \<ge> 0 then take (nat commentStart) line0 else line0);
          line2 = TrimSpace line1
      in case line2 of
           [] \<Rightarrow> Inr None
         | c # cs \<Rightarrow>
             (let item = (if c = CHR ''!'' then emptyRule\<lparr>Negation := True\<rparr> else emptyRule);
                  line = (if c = CHR ''!'' then TrimSpace cs else line2)
              in if line = ''*'' then Inr (Some (item\<lparr>All' := True\<rparr>))
                 else if length line < 6 then Inl SliceBoundsOutOfRange
                 else if take 6 line = ''ipcat ''
                   then Inr (Some (item\<lparr>IPCat := TrimSpace (drop 6 line)\<rparr>))
                 else if hd line = CHR ''@''
                   then Inr (Some (parseGeofence lib item (TrimSpace (tl line))))
                 else if hd line = CHR ''~''
                   then Inr (Some (parseRegexp lib item (TrimSpace (tl line))))
                 else
                   (case ParseCIDR lib line of
                      Inr network \<Rightarrow> Inr (Some (item\<lparr>Network := Some network\<rparr>))
                    | Inl err \<Rightarrow>
                        (case ParseIP lib line of
                           Some addr \<Rightarrow> Inr (Some (item\<lparr>IP := Some addr\<rparr>))
                         | None \<Rightarrow> Inr (Some (item\<lparr>Hostname := ToLower lib line\<rparr>))))))"

fun ParseLines :: "golib \<Rightarrow> Blacklist \<Rightarrow> string list \<Rightarrow> panic + Blacklist" where
  "ParseLines lib blacklist [] = Inr blacklist"
| "ParseLines lib blacklist (line # rest) =
     (case parseLine lib line of
        Inl p \<Rightarrow> Inl p
      | Inr None \<Rightarrow> ParseLines lib blacklist rest
      | Inr (Some item) \<Rightarrow> ParseLines lib (Add blacklist item) rest)"

definition ParseBlacklist :: "golib \<Rightarrow> string \<Rightarrow> panic + Blacklist" where
  "ParseBlacklist lib text = ParseLines lib \<lparr>List = []\<rparr> (SplitLines text)"

subsection \<open>Allow\<close>

text \<open>
  One iteration of the loop of \<open>Allow\<close>, for the rule \<open>item\<close>, with the
  memoised \<open>user\<close> geofence and ipcat \<open>category\<close>. \<open>Inl r\<close> is the statement
  \<open>return r\<close> inside the loop; \<open>Inr (match, user, category)\<close> is the end of the
  \<open>if\<close> chain with the value of \<open>match\<close> and the memoised values. Logging is
  left out.
\<close>

definition Hostname_match :: "golib \<Rightarrow> IP \<Rightarrow> string \<Rightarrow> bool" where
  "Hostname_match lib ip hostname =
     (let (addrs, err) = LookupIP lib hostname;
          match1 = (if err \<noteq> None then list_ex (\<lambda>addr. Equal addr ip) addrs else False);
          (names, err') = LookupAddr lib (IP_String lib ip);
          match2 = (if err' \<noteq> None
                    then (if list_ex (\<lambda>name. ToLower lib name = hostname) names then True else match1)
                    else match1)
      in match2)"

definition Regexp_match :: "golib \<Rightarrow> IP \<Rightarrow> string \<Rightarrow> bool" where
  "Regexp_match lib ip re =
     (let (names, err) = LookupAddr lib (IP_String lib ip)
      in if err \<noteq> None then list_ex (\<lambda>name. regexp_Match lib re (ToLower lib name)) names
         else False)"

definition Geofence_item ::
  "golib \<Rightarrow> BlacklistContext \<Rightarrow> IP \<Rightarrow> Geofence option \<Rightarrow> Interval option \<Rightarrow> BlacklistRule \<Rightarrow> Geofence
     \<Rightarrow> bool + (bool \<times> Geofence option \<times> Interval option)" where
  "Geofence_item lib ctx ip user category item bounds =
     (case GeoDB ctx of
        None \<Rightarrow> Inl False
      | Some db \<Rightarrow>
          (case (case user of
                   None \<Rightarrow>
                     (case db ip of
                        Inl err \<Rightarrow> Inl False
                      | Inr record \<Rightarrow>
                          Inr \<lparr>Latitude = Location_Latitude record,
                               Longitude = Location_Longitude record,
                               Radius = real (unat (Location_AccuracyRadius record)) * 1000\<rparr>)
                 | Some u \<Rightarrow> Inr u) of
             Inl r \<Rightarrow> Inl r
           | Inr u \<Rightarrow>
               (let boundsIntersect = Intersection (GreatCircleDistance lib) bounds u;
                    match = (if Negation item then boundsIntersect AND IsSuperset \<noteq> 0
                             else \<not> (boundsIntersect AND IsDisjoint \<noteq> 0))
                in Inr (match, Some u, category))))"

definition IPCat_item ::
  "golib \<Rightarrow> BlacklistContext \<Rightarrow> IP \<Rightarrow> Geofence option \<Rightarrow> Interval option \<Rightarrow> BlacklistRule
     \<Rightarrow> bool + (bool \<times> Geofence option \<times> Interval option)" where
  "IPCat_item lib ctx ip user category item =
     (case IPSet ctx of
        None \<Rightarrow> Inl False
      | Some ipset \<Rightarrow>
          (case (case category of
                   None \<Rightarrow>
                     (case To4 ip of
                        Some ipv4 \<Rightarrow>
                          (case ipset (IP_String lib ipv4) of
                             Inl err \<Rightarrow> Inl False
                           | Inr interval \<Rightarrow> Inr interval)
                      | None \<Rightarrow> Inr category)
                 | Some c \<Rightarrow> Inr category) of
             Inl r \<Rightarrow> Inl r
           | Inr category' \<Rightarrow>
               (case category' of
                  Some c \<Rightarrow>
                    (let name = ToLower lib (Name c);
                         search = Replace (regexp_QuoteMeta lib (ToLower lib (IPCat item)))
                                    [CHR 0x5C, CHR ''*''] ''.*''
                     in case regexp_MatchString lib search name of
                          Inl err \<Rightarrow> Inl False
                        | Inr match \<Rightarrow> Inl False)
                | None \<Rightarrow> Inl False)))"

definition Allow_item ::
  "golib \<Rightarrow> BlacklistContext \<Rightarrow> IP \<Rightarrow> Geofence option \<Rightarrow> Interval option \<Rightarrow> BlacklistRule
     \<Rightarrow> bool + (bool \<times> Geofence option \<times> Interval option)" where
  "Allow_item lib ctx ip user category item =
     (if All' item then Inr (True, user, category)
      else case Network item of
        Some network \<Rightarrow> Inr (Contains network ip, user, category)
      | None \<Rightarrow>
      (case IP item of
        Some addr \<Rightarrow> Inr (Equal addr ip, user, category)
      | None \<Rightarrow>
      (if Hostname item \<noteq> [] then Inr (Hostname_match lib ip (Hostname item), user, category)
       else case Regexp item of
        Some re \<Rightarrow> Inr (Regexp_match lib ip re, user, category)
      | None \<Rightarrow>
      (case Geofence item of
        Some bounds \<Rightarrow> Geofence_item lib ctx ip user category item bounds
      | None \<Rightarrow>
      (if IPCat item \<noteq> [] then IPCat_item lib ctx ip user category item
       else Inr (False, user, category))))))"

text \<open>The loop over \<open>b.List\<close>: a matching rule sets \<open>allow = item.Negation\<close>.\<close>

fun Allow_loop ::
  "golib \<Rightarrow> BlacklistContext \<Rightarrow> IP \<Rightarrow> bool \<Rightarrow> Geofence option \<Rightarrow> Interval option
     \<Rightarrow> BlacklistRule list \<Rightarrow> bool" where
  "Allow_loop lib ctx ip allow user category [] = allow"
| "Allow_loop lib ctx ip allow user category (item # rest) =
     (case Allow_item lib ctx ip user category item of
        Inl r \<Rightarrow> r
      | Inr (match, user', category') \<Rightarrow>
          Allow_loop lib ctx ip (if match then Negation item else allow) user' category' rest)"

definition Allow :: "golib \<Rightarrow> Blacklist \<Rightarrow> BlacklistContext \<Rightarrow> IP \<Rightarrow> bool" where
  "Allow lib b ctx ip = Allow_loop lib ctx ip True None None (List b)"

text \<open>
  The rule kinds of the \<open>if\<close> chain. A rule is handled as a Geofence rule when its
  \<open>Geofence\<close> is set and no earlier branch of the chain takes it, and as a Category
  rule when its \<open>IPCat\<close> is set and no earlier branch takes it; rules made by
  \<open>ParseBlacklist\<close> or by training set one field only.
\<close>

definition isGeofenceRule :: "BlacklistRule \<Rightarrow> bool" where
  "isGeofenceRule item =
     (\<not> All' item \<and> Network item = None \<and> IP item = None \<and> Hostname item = [] \<and>
      Regexp item = None \<and> Geofence item \<noteq> None)"

definition isCategoryRule :: "BlacklistRule \<Rightarrow> bool" where
  "isCategoryRule item =
     (\<not> All' item \<and> Network item = None \<and> IP item = None \<and> Hostname item = [] \<and>
      Regexp item = None \<and> Geofence item = None \<and> IPCat item \<noteq> [])"

text \<open>
  What one rule does on its own, before anything is memoised: \<open>None\<close> when the
  iteration returns from \<open>Allow\<close>, else the value of \<open>match\<close>.
\<close>

definition rule_outcome :: "golib \<Rightarrow> BlacklistContext \<Rightarrow> IP \<Rightarrow> BlacklistRule \<Rightarrow> bool option" where
  "rule_outcome lib ctx ip item =
     (case Allow_item lib ctx ip None None item of
        Inl r \<Rightarrow> None
      | Inr (match, user, category) \<Rightarrow> Some match)"

definition aborts :: "golib \<Rightarrow> BlacklistContext \<Rightarrow> IP \<Rightarrow> BlacklistRule \<Rightarrow> bool" where
  "aborts lib ctx ip item = (rule_outcome lib ctx ip item = None)"

definition matches :: "golib \<Rightarrow> BlacklistContext \<Rightarrow> IP \<Rightarrow> BlacklistRule \<Rightarrow> bool" where
  "matches lib ctx ip item = (rule_outcome lib ctx ip item = Some True)"

text \<open>
  The decision by the last matching rule: \<open>allow = item.Negation\<close> for the last rule
  that matches, the default \<open>true\<close> when none does.
\<close>

definition last_match_wins :: "BlacklistRule list \<Rightarrow> bool" where
  "last_match_wins ms = (case ms of [] \<Rightarrow> True | m # ms' \<Rightarrow> Negation (last ms))"

text \<open>
  The geofence that \<open>Allow\<close> memoises for the requester: the record of
  \<open>ctx.GeoDB.City(ip)\<close>, the accuracy radius converted from kilometres to metres.
\<close>

definition userGeofence :: "City \<Rightarrow> Geofence" where
  "userGeofence record =
     \<lparr>Latitude = Location_Latitude record, Longitude = Location_Longitude record,
      Radius = real (unat (Location_AccuracyRadius record)) * 1000\<rparr>"

definition cachedUser :: "BlacklistContext \<Rightarrow> IP \<Rightarrow> Geofence option" where
  "cachedUser ctx ip =
     (case GeoDB ctx of
        None \<Rightarrow> None
      | Some db \<Rightarrow> (case db ip of Inl err \<Rightarrow> None | Inr record \<Rightarrow> Some (userGeofence record)))"

subsection \<open>Allow on a store of rules\<close>

text \<open>
  \<open>Blacklist.List\<close> is a slice of pointers, and \<open>Allow\<close> has a pointer receiver.
  In the store, a blacklist is the list of the addresses of its rules. \<open>Allow_mem\<close>
  is \<open>Allow\<close> reading its receiver and each rule through the store, and returning
  the store it leaves; a \<open>nil\<close> or dangling pointer panics.
\<close>

type_synonym addr = nat

record Memory =
  blacklists :: "addr \<Rightarrow> addr list option"
  rules :: "addr \<Rightarrow> BlacklistRule option"

datatype deref_panic = NilPointerDereference

fun Allow_loop_mem ::
  "golib \<Rightarrow> BlacklistContext \<Rightarrow> IP \<Rightarrow> Memory \<Rightarrow> bool \<Rightarrow> Geofence option \<Rightarrow> Interval option
     \<Rightarrow> addr list \<Rightarrow> (deref_panic + bool) \<times> Memory" where
  "Allow_loop_mem lib ctx ip mem allow user category [] = (Inr allow, mem)"
| "Allow_loop_mem lib ctx ip mem allow user category (p # rest) =
     (case rules mem p of
        None \<Rightarrow> (Inl NilPointerDereference, mem)
      | Some item \<Rightarrow>
          (case Allow_item lib ctx ip user category item of
             Inl r \<Rightarrow> (Inr r, mem)
           | Inr (match, user', category') \<Rightarrow>
               Allow_loop_mem lib ctx ip mem (if match then Negation item else allow)
                 user' category' rest))"

definition Allow_mem ::
  "golib \<Rightarrow> Memory \<Rightarrow> addr \<Rightarrow> BlacklistContext \<Rightarrow> IP \<Rightarrow> (deref_panic + bool) \<times> Memory" where
  "Allow_mem lib mem b ctx ip =
     (case blacklists mem b of
        None \<Rightarrow> (Inl NilPointerDereference, mem)
      | Some list \<Rightarrow> Allow_loop_mem lib ctx ip mem True None None list)"

text \<open>The blacklist value that the store holds at \<open>b\<close>, when every pointer is valid.\<close>

definition load_Blacklist :: "Memory \<Rightarrow> addr \<Rightarrow> Blacklist option" where
  "load_Blacklist mem b =
     (case blacklists mem b of
        None \<Rightarrow> None
      | Some list \<Rightarrow>
          (if list_all (\<lambda>p. rules mem p \<noteq> None) list
           then Some \<lparr>List = map (\<lambda>p. the (rules mem p)) list\<rparr>
           else None))"

section \<open>The access gate (ShotHandler.Access)\<close>

text \<open>
  Modelled from the spec: the declaration of \<open>ZerodropEntry\<close> and the database are
  not among the sources. The record holds the fields that \<open>Access\<close> reads and writes;
  \<open>DB.Get\<close>, \<open>entry.IsExpired\<close>, \<open>RealRemoteAddr\<close> with \<open>net.SplitHostPort\<close>
  and the formatted time are parameters. \<open>entry.Update()\<close> is the commit of
  section 4.6 of the specification: \<open>Access\<close> returns, beside its result, the entry
  that it commits, if any.
\<close>

record ZerodropEntry =
  EntryName :: string
  AccessTrain :: bool
  AccessBlacklist :: Blacklist
  AccessBlacklistCount :: int
  AccessCount :: int

record AccessEnv =
  SplitHostPort :: "string \<Rightarrow> string + (string \<times> string)"
  Get :: "string \<Rightarrow> ZerodropEntry option"
  IsExpired :: "ZerodropEntry \<Rightarrow> bool"
  Now :: string

definition Access ::
  "golib \<Rightarrow> AccessEnv \<Rightarrow> BlacklistContext \<Rightarrow> string \<Rightarrow> string
     \<Rightarrow> ZerodropEntry option \<times> ZerodropEntry option" where
  "Access lib env ctx name addr =
     (case SplitHostPort env addr of
        Inl err \<Rightarrow> (None, None)
      | Inr (host, port) \<Rightarrow>
      (case ParseIP lib host of
        None \<Rightarrow> (None, None)
      | Some ip \<Rightarrow>
      (case Get env name of
        None \<Rightarrow> (None, None)
      | Some entry \<Rightarrow>
          if AccessTrain entry then
            (let date = Now env;
                 bl1 = Add (AccessBlacklist entry)
                         (emptyRule\<lparr>Comment := ''Automatically added by training on '' @ date\<rparr>);
                 bl2 = Add bl1 (emptyRule\<lparr>IP := Some ip\<rparr>);
                 bl3 = (case GeoDB ctx of
                          None \<Rightarrow> bl2
                        | Some db \<Rightarrow>
                            (case db ip of
                               Inl err \<Rightarrow> bl2
                             | Inr record \<Rightarrow>
                                 Add bl2 (emptyRule\<lparr>Geofence := Some (userGeofence record)\<rparr>)))
             in (None, Some (entry\<lparr>AccessBlacklist := bl3\<rparr>)))
          else if IsExpired env entry then
            (None, Some (entry\<lparr>AccessBlacklistCount := AccessBlacklistCount entry + 1\<rparr>))
          else if \<not> Allow lib (AccessBlacklist entry) ctx ip then
            (None, Some (entry\<lparr>AccessBlacklistCount := AccessBlacklistCount entry + 1\<rparr>))
          else
            (let entry' = entry\<lparr>AccessCount := AccessCount entry + 1\<rparr>
             in (Some entry', Some entry')))))"

section \<open>A fixed instance of the library parameters\<close>

text \<open>
  An instance of the parameters for the concrete examples: a host without DNS, whose
  CIDR parser knows the network \<open>10.0.0.0/8\<close>, and a distance that is symmetric.
\<close>

definition net10 :: IPNet where
  "net10 = \<lparr>NetIP = [10, 0, 0, 0], Mask = [255, 0, 0, 0]\<rparr>"

definition flatDistance :: "Point \<Rightarrow> Point \<Rightarrow> real" where
  "flatDistance p q = 111 * (\<bar>fst p - fst q\<bar> + \<bar>snd p - snd q\<bar>)"

definition offline_lib :: golib where
  "offline_lib =
     \<lparr>LookupIP = (\<lambda>host. ([], Some ''no such host'')),
      LookupAddr = (\<lambda>a. ([], Some ''no such host'')),
      IP_String = (\<lambda>ip. []),
      IPNet_String = (\<lambda>n. []),
      ParseCIDR = (\<lambda>s. if s = ''10.0.0.0/8'' then Inr net10 else Inl ''invalid CIDR address''),
      ParseIP = (\<lambda>s. if s = ''10.1.2.3'' then Some (v4InV6Prefix @ [10, 1, 2, 3]) else None),
      regexp_Compile = (\<lambda>s. None),
      regexp_Match = (\<lambda>re s. False),
      regexp_QuoteMeta = (\<lambda>s. s),
      geofence_FindStringSubmatch = (\<lambda>s. []),
      ParseFloat = (\<lambda>s. Inl ''invalid syntax''),
      FormatFloat = (\<lambda>x. []),
      Quote = (\<lambda>s. s),
      GreatCircleDistance = flatDistance,
      Map_unicode_ToLower = (\<lambda>s. s)\<rparr>"




definition no_databases :: BlacklistContext where
  "no_databases = \<lparr>GeoDB = None, IPSet = None\<rparr>"

section \<open>The example of the specification\<close>

text \<open>
  The RuleSet of the two lines \<open>!*\<close> and \<open>10.0.0.0/8\<close>, and the requesters
  10.1.2.3 and 8.8.8.8, each as the four-byte address and as the sixteen-byte address
  that \<open>net.ParseIP\<close> returns.
\<close>

definition two_lines :: string where
  "two_lines = ''!*'' @ [CHR 0x0A] @ ''10.0.0.0/8''"

definition two_rules :: Blacklist where
  "two_rules = \<lparr>List = [emptyRule\<lparr>Negation := True, All' := True\<rparr>,
                         emptyRule\<lparr>Network := Some net10\<rparr>]\<rparr>"

definition ip_10_1_2_3 :: IP where
  "ip_10_1_2_3 = [10, 1, 2, 3]"

definition ip_8_8_8_8 :: IP where
  "ip_8_8_8_8 = [8, 8, 8, 8]"

definition in16 :: "IP \<Rightarrow> IP" where
  "in16 ip4 = v4InV6Prefix @ ip4"

text \<open>
  The decision rule in the words of the specification, section 4.5: on a match,
  \<open>allow := !rule.negated\<close>, the last matching rule wins, and the default is allow.
\<close>

definition spec_last_match_wins :: "BlacklistRule list \<Rightarrow> bool" where
  "spec_last_match_wins ms = (case ms of [] \<Rightarrow> True | m # ms' \<Rightarrow> \<not> Negation (last ms))"

section \<open>A store and a database for the examples\<close>

text \<open>
  A store that holds the RuleSet of the example at address 1, and a database with one
  entry that is neither in training mode nor expired.
\<close>

definition example_store :: Memory where
  "example_store =
     \<lparr>blacklists = (\<lambda>a. if a = 1 then Some [10, 11] else None),
      rules = (\<lambda>p. if p = 10 then Some (emptyRule\<lparr>Negation := True, All' := True\<rparr>)
                    else if p = 11 then Some (emptyRule\<lparr>Network := Some net10\<rparr>)
                    else None)\<rparr>"

definition example_entry :: ZerodropEntry where
  "example_entry =
     \<lparr>EntryName = ''doc'', AccessTrain = False, AccessBlacklist = two_rules,
      AccessBlacklistCount = 0, AccessCount = 0\<rparr>"

definition example_env :: AccessEnv where
  "example_env =
     \<lparr>SplitHostPort = (\<lambda>a. if a = ''10.1.2.3:4711'' then Inr (''10.1.2.3'', ''4711'')
                            else Inl ''missing port in address''),
      Get = (\<lambda>name. if name = ''doc'' then Some example_entry else None),
      IsExpired = (\<lambda>entry. False),
      Now = ''Fri, 30 Oct 2026 12:00:00 UTC''\<rparr>"

definition training_entry :: ZerodropEntry where
  "training_entry = example_entry\<lparr>AccessTrain := True\<rparr>"

definition training_env :: AccessEnv where
  "training_env =
     example_env\<lparr>Get := (\<lambda>name. if name = ''doc'' then Some training_entry else None)\<rparr>"

definition trained_entry :: ZerodropEntry where
  "trained_entry =
     training_entry\<lparr>AccessBlacklist := \<lparr>List = List two_rules @
       [emptyRule\<lparr>Comment := ''Automatically added by training on Fri, 30 Oct 2026 12:00:00 UTC''\<rparr>,
        emptyRule\<lparr>IP := Some (in16 ip_10_1_2_3)\<rparr>]\<rparr>\<rparr>"

section \<open>Properties of Intersection\<close>

lemma flag_values:
  "IsDisjoint = 1" "IsSubset = 2" "IsSuperset = 4"
  by (simp_all add: IsDisjoint_def IsSubset_def IsSuperset_def)

lemma Intersection_cases:
  "Intersection kmBetween mi tu =
     (if Radius mi + Radius tu > distance_m kmBetween mi tu then 1
      else if Radius mi - Radius tu > distance_m kmBetween mi tu
           then (if Radius tu - Radius mi > distance_m kmBetween mi tu then 6 else 4)
           else (if Radius tu - Radius mi > distance_m kmBetween mi tu then 2 else 0))"
  by (simp add: Intersection_def distance_m_def flag_values Let_def)

lemma and_flags:
  "(0::64 word) AND 1 = 0" "(0::64 word) AND 2 = 0" "(0::64 word) AND 4 = 0"
  "(1::64 word) AND 1 = 1" "(1::64 word) AND 2 = 0" "(1::64 word) AND 4 = 0"
  "(2::64 word) AND 1 = 0" "(2::64 word) AND 2 = 2" "(2::64 word) AND 4 = 0"
  "(4::64 word) AND 1 = 0" "(4::64 word) AND 2 = 0" "(4::64 word) AND 4 = 4"
  "(6::64 word) AND 1 = 0" "(6::64 word) AND 2 = 2" "(6::64 word) AND 4 = 4"
  by simp_all

lemma flags_nonzero: "(1::64 word) \<noteq> 0" "(2::64 word) \<noteq> 0" "(4::64 word) \<noteq> 0"
  by simp_all

text \<open>Each flag of the result, read off the comparisons of the code.\<close>

lemma Intersection_flags:
  "(Intersection km a b AND IsDisjoint \<noteq> 0) = (distance_m km a b < Radius a + Radius b)"
  "(Intersection km a b AND IsSuperset \<noteq> 0) =
     (\<not> distance_m km a b < Radius a + Radius b \<and> distance_m km a b < Radius a - Radius b)"
  "(Intersection km a b AND IsSubset \<noteq> 0) =
     (\<not> distance_m km a b < Radius a + Radius b \<and> distance_m km a b < Radius b - Radius a)"
  unfolding Intersection_cases flag_values
  by (simp_all only: and_flags flags_nonzero if_distrib [of "\<lambda>w. w AND _"]
        if_distrib [of "\<lambda>w. w \<noteq> _"] split: if_split) simp_all

lemma distance_m_flat_same: "distance_m flatDistance g g = 0"
  by (simp add: distance_m_def flatDistance_def NewPoint_def)

text \<open>
  C2: Intersection reports Disjoint exactly when the distance d between the centres
  satisfies d >= radius(a) + radius(b). The code compares the other way round: the
  result has the flag IsDisjoint exactly when radius(a) + radius(b) > d, that is when the
  circles overlap. Two geofences with the same centre and radius 100 m (distance 0) are
  reported disjoint.
\<close>

theorem Intersection_IsDisjoint_when_overlapping:
  "(Intersection km a b AND IsDisjoint \<noteq> 0) = (Radius a + Radius b > distance_m km a b) \<and>
   Intersection flatDistance \<lparr>Latitude = 0, Longitude = 0, Radius = 100\<rparr>
     \<lparr>Latitude = 0, Longitude = 0, Radius = 100\<rparr> = IsDisjoint"
  by (simp add: Intersection_flags Intersection_cases distance_m_flat_same flag_values)

text \<open>
  With radii that are not negative, the tests for Superset and Subset are never true
  where they are reached: neither flag is set, whatever the distance.
\<close>

lemma Intersection_no_Subset_Superset:
  assumes "0 \<le> Radius a" and "0 \<le> Radius b"
  shows "Intersection km a b AND IsSubset = 0 \<and> Intersection km a b AND IsSuperset = 0"
proof -
  have "\<not> (Intersection km a b AND IsSubset \<noteq> 0)" "\<not> (Intersection km a b AND IsSuperset \<noteq> 0)"
    unfolding Intersection_flags using assms by auto
  then show ?thesis by simp
qed




text \<open>
  C9: the result of Intersection never combines IsDisjoint with IsSubset or IsSuperset:
  whenever IsDisjoint is set, no other flag is set in the returned value.
\<close>

theorem Intersection_IsDisjoint_alone:
  "Intersection km a b AND IsDisjoint \<noteq> 0 \<Longrightarrow>
   Intersection km a b = IsDisjoint \<and>
   Intersection km a b AND IsSubset = 0 \<and> Intersection km a b AND IsSuperset = 0"
  by (simp add: Intersection_cases flag_values and_flags split: if_splits)

theorem Intersection_IsDisjoint_alone_witness:
  "Intersection flatDistance \<lparr>Latitude = 0, Longitude = 0, Radius = 100\<rparr>
     \<lparr>Latitude = 0, Longitude = 1, Radius = 200000\<rparr> AND IsDisjoint \<noteq> 0 \<and>
   Intersection flatDistance \<lparr>Latitude = 0, Longitude = 0, Radius = 100\<rparr>
     \<lparr>Latitude = 0, Longitude = 1, Radius = 200000\<rparr> = IsDisjoint \<and>
   Intersection flatDistance \<lparr>Latitude = 0, Longitude = 0, Radius = 100\<rparr>
     \<lparr>Latitude = 0, Longitude = 1, Radius = 200000\<rparr> AND IsSubset = 0 \<and>
   Intersection flatDistance \<lparr>Latitude = 0, Longitude = 0, Radius = 100\<rparr>
     \<lparr>Latitude = 0, Longitude = 1, Radius = 200000\<rparr> AND IsSuperset = 0"
proof -
  have h: "Intersection flatDistance \<lparr>Latitude = 0, Longitude = 0, Radius = 100\<rparr>
     \<lparr>Latitude = 0, Longitude = 1, Radius = 200000\<rparr> AND IsDisjoint \<noteq> 0"
    by (simp add: Intersection_flags distance_m_def flatDistance_def NewPoint_def)
  show ?thesis
    using h Intersection_IsDisjoint_alone [OF h] by blast
qed

section \<open>Properties of Allow\<close>

lemma Geofence_item_return: "Geofence_item lib ctx ip user category item bounds = Inl r \<Longrightarrow> \<not> r"
  by (auto simp: Geofence_item_def Let_def split: option.splits sum.splits)

lemma IPCat_item_return: "IPCat_item lib ctx ip user category item = Inl False"
  by (simp add: IPCat_item_def Let_def split: option.splits sum.splits)

lemma Allow_item_return: "Allow_item lib ctx ip user category item = Inl r \<Longrightarrow> \<not> r"
  by (auto simp: Allow_item_def IPCat_item_return dest: Geofence_item_return split: option.splits if_splits)

lemma Allow_item_Category: "isCategoryRule item \<Longrightarrow> Allow_item lib ctx ip user category item = Inl False"
  by (simp add: Allow_item_def isCategoryRule_def IPCat_item_return)

lemma Allow_item_Geofence_noDB:
  "isGeofenceRule item \<Longrightarrow> GeoDB ctx = None \<Longrightarrow> Allow_item lib ctx ip user category item = Inl False"
  by (auto simp: Allow_item_def isGeofenceRule_def Geofence_item_def)

lemma Allow_loop_Geofence_noDB:
  "GeoDB ctx = None \<Longrightarrow> item \<in> set rs \<Longrightarrow> isGeofenceRule item \<Longrightarrow>
   Allow_loop lib ctx ip allow user category rs = False"
proof (induction rs arbitrary: allow user category)
  case Nil
  then show ?case by simp
next
  case (Cons r rs)
  show ?case
  proof (cases "Allow_item lib ctx ip user category r")
    case (Inl b)
    then show ?thesis using Allow_item_return [OF Inl] by simp
  next
    case (Inr t)
    obtain m u c where t: "t = (m, u, c)" by (cases t)
    have "r \<noteq> item" using Inr Allow_item_Geofence_noDB [OF Cons.prems(3) Cons.prems(1), of lib ip user category] by auto
    then have "item \<in> set rs" using Cons.prems(2) by simp
    then show ?thesis using Inr t Cons.IH [OF Cons.prems(1) _ Cons.prems(3)] by simp
  qed
qed

text \<open>
  The memoised values do not change what a rule does: \<open>category\<close> stays \<open>nil\<close>
  as long as the loop runs, and \<open>user\<close> is \<open>nil\<close> or the geofence of the requester.
\<close>

lemma Allow_item_memo:
  assumes "user = None \<or> user = cachedUser ctx ip"
  shows "case Allow_item lib ctx ip user None item of
           Inl r \<Rightarrow> rule_outcome lib ctx ip item = None
         | Inr (m, user', category') \<Rightarrow>
             rule_outcome lib ctx ip item = Some m \<and> category' = None \<and>
             (user' = None \<or> user' = cachedUser ctx ip)"
  using assms
  by (auto simp: rule_outcome_def Allow_item_def Geofence_item_def IPCat_item_return
        cachedUser_def userGeofence_def Let_def
      split: option.splits sum.splits if_splits)

lemma last_match_wins_Cons:
  "last_match_wins (m # ms) = (if ms = [] then Negation m else last_match_wins ms)"
  by (cases ms) (simp_all add: last_match_wins_def)

lemma Allow_loop_last_match:
  assumes "user = None \<or> user = cachedUser ctx ip"
  shows "Allow_loop lib ctx ip allow user None rs =
     (if list_ex (aborts lib ctx ip) rs then False
      else if filter (matches lib ctx ip) rs = [] then allow
      else last_match_wins (filter (matches lib ctx ip) rs))"
  using assms
proof (induction rs arbitrary: allow user)
  case Nil
  then show ?case by simp
next
  case (Cons r rs)
  show ?case
  proof (cases "Allow_item lib ctx ip user None r")
    case (Inl b)
    have "\<not> b" using Allow_item_return [OF Inl] .
    moreover have "aborts lib ctx ip r"
      using Allow_item_memo [OF Cons.prems, of lib r] Inl by (simp add: aborts_def)
    ultimately show ?thesis using Inl by simp
  next
    case (Inr t)
    obtain m u c where t: "t = (m, u, c)" by (cases t)
    have memo: "rule_outcome lib ctx ip r = Some m" "c = None" "u = None \<or> u = cachedUser ctx ip"
      using Allow_item_memo [OF Cons.prems, of lib r] Inr t by simp_all
    have step: "Allow_loop lib ctx ip allow user None (r # rs) =
        Allow_loop lib ctx ip (if m then Negation r else allow) u None rs"
      using Inr t memo(2) by simp
    have na: "\<not> aborts lib ctx ip r" using memo(1) by (simp add: aborts_def)
    have mm: "matches lib ctx ip r = m" using memo(1) by (simp add: matches_def)
    show ?thesis
      unfolding step Cons.IH [OF memo(3)]
      using na mm by (simp add: last_match_wins_Cons)
  qed
qed

lemma Allow_last_match:
  "Allow lib b ctx ip =
     (if list_ex (aborts lib ctx ip) (List b) then False
      else last_match_wins (filter (matches lib ctx ip) (List b)))"
  unfolding Allow_def using Allow_loop_last_match [of None ctx ip lib True "List b"]
  by (simp add: last_match_wins_def)

text \<open>
  C6: for every RuleSet containing at least one Geofence rule and every requester IP,
  Allow with a context that has no geolocation database returns deny, whatever the
  other rules are and whether or not the Geofence rule is negated.
\<close>

theorem Allow_Geofence_without_GeoDB:
  assumes "GeoDB ctx = None" and "item \<in> set (List b)" and "isGeofenceRule item"
  shows "Allow lib b ctx ip = False"
  unfolding Allow_def
  using assms by (rule Allow_loop_Geofence_noDB)

theorem Allow_Geofence_without_GeoDB_witness:
  "GeoDB no_databases = None \<and>
   emptyRule\<lparr>Negation := True, Geofence := Some \<lparr>Latitude = 48, Longitude = 2, Radius = 25\<rparr>\<rparr>
     \<in> set (List \<lparr>List = [emptyRule\<lparr>Negation := True, All' := True\<rparr>,
            emptyRule\<lparr>Negation := True, Geofence := Some \<lparr>Latitude = 48, Longitude = 2, Radius = 25\<rparr>\<rparr>,
            emptyRule\<lparr>Negation := True, All' := True\<rparr>]\<rparr>) \<and>
   isGeofenceRule
     (emptyRule\<lparr>Negation := True, Geofence := Some \<lparr>Latitude = 48, Longitude = 2, Radius = 25\<rparr>\<rparr>) \<and>
   Allow offline_lib
     \<lparr>List = [emptyRule\<lparr>Negation := True, All' := True\<rparr>,
            emptyRule\<lparr>Negation := True, Geofence := Some \<lparr>Latitude = 48, Longitude = 2, Radius = 25\<rparr>\<rparr>,
            emptyRule\<lparr>Negation := True, All' := True\<rparr>]\<rparr>
     no_databases [8, 8, 8, 8] = False"
proof -
  let ?g = "emptyRule\<lparr>Negation := True, Geofence := Some \<lparr>Latitude = 48, Longitude = 2, Radius = 25\<rparr>\<rparr>"
  let ?b = "\<lparr>List = [emptyRule\<lparr>Negation := True, All' := True\<rparr>, ?g,
                    emptyRule\<lparr>Negation := True, All' := True\<rparr>]\<rparr>"
  have h1: "GeoDB no_databases = None"
    by (simp add: no_databases_def)
  have h2: "?g \<in> set (List ?b)"
    by simp
  have h3: "isGeofenceRule ?g"
    by (simp add: isGeofenceRule_def emptyRule_def)
  show ?thesis
    using h1 h2 h3 Allow_Geofence_without_GeoDB [OF h1 h2 h3, of offline_lib "[8, 8, 8, 8]"]
    by blast
qed

text \<open>
  C1: a Category (ipcat) rule for which classification yields no category for the
  requester, or whose glob does not match, does not match, evaluation continues, and
  the rule never forces denial by itself. The code returns \<open>false\<close> from \<open>Allow\<close> at
  the end of the ipcat branch, whatever was classified and whatever rules follow: with a
  classifier that knows no category for the requester, or that classifies it as
  \<open>Residential\<close>, the list of the one rule \<open>ipcat tor*\<close> denies, and so does
  every list that starts with that rule.
\<close>

theorem Allow_Category_rule_denies:
  "Allow lib \<lparr>List = emptyRule\<lparr>IPCat := ''tor*''\<rparr> # rest\<rparr>
     \<lparr>GeoDB = None, IPSet = Some (\<lambda>dots. Inr None)\<rparr> ip = False \<and>
   Allow lib \<lparr>List = emptyRule\<lparr>IPCat := ''tor*''\<rparr> # rest\<rparr>
     \<lparr>GeoDB = None, IPSet = Some (\<lambda>dots. Inr (Some \<lparr>Name = ''Residential'', URL = []\<rparr>))\<rparr>
     ip = False"
  by (simp add: Allow_def Allow_item_def emptyRule_def IPCat_item_return)

text \<open>
  C3: a Hostname rule matches exactly when the successful forward resolution of its
  hostname contains the requester, or the successful reverse resolution of the requester
  contains the hostname. The code reads the results of a lookup only when the lookup
  failed (\<open>err != nil\<close>): when both resolutions succeed, whatever they return, the
  rule does not match and the list of that one rule allows the requester.
\<close>

theorem Allow_Hostname_rule_misses_resolved_address:
  "Allow (lib\<lparr>LookupIP := (\<lambda>host. ([ip], None)),
               LookupAddr := (\<lambda>a. ([''example.com''], None))\<rparr>)
     \<lparr>List = [emptyRule\<lparr>Hostname := ''example.com''\<rparr>]\<rparr> ctx ip = True"
  by (simp add: Allow_def Allow_item_def emptyRule_def Hostname_match_def)

section \<open>The last matching rule wins\<close>

lemma Contains_net10:
  "Contains net10 ip_10_1_2_3" "Contains net10 (in16 ip_10_1_2_3)"
  "\<not> Contains net10 ip_8_8_8_8" "\<not> Contains net10 (in16 ip_8_8_8_8)"
  by (simp_all add: Contains_def networkNumberAndMask_def To4_def net10_def v4InV6Prefix_def
        in16_def ip_10_1_2_3_def ip_8_8_8_8_def upt_rec)

lemma TrimSpace_examples:
  "TrimSpace ''!*'' = ''!*''" "TrimSpace ''*'' = ''*''" "TrimSpace ''10.0.0.0/8'' = ''10.0.0.0/8''"
  "TrimSpace ''IPCAT foo'' = ''IPCAT foo''" "TrimSpace ''ipcat foo '' = ''ipcat foo''"
  "TrimSpace ''foo'' = ''foo''"
  by code_simp+

lemma parseLine_negated_wildcard:
  "parseLine lib ''!*'' = Inr (Some (emptyRule\<lparr>Negation := True, All' := True\<rparr>))"
  by (simp add: parseLine_def IndexByte_def TrimSpace_examples)

lemma parseLine_net10:
  "ParseCIDR lib ''10.0.0.0/8'' = Inr net10 \<Longrightarrow>
   parseLine lib ''10.0.0.0/8'' = Inr (Some (emptyRule\<lparr>Network := Some net10\<rparr>))"
  by (simp add: parseLine_def IndexByte_def TrimSpace_examples)

lemma ParseBlacklist_two_lines:
  "ParseCIDR lib ''10.0.0.0/8'' = Inr net10 \<Longrightarrow> ParseBlacklist lib two_lines = Inr two_rules"
  by (simp add: ParseBlacklist_def two_lines_def two_rules_def Add_def
        parseLine_negated_wildcard parseLine_net10)

lemma matches_two_rules:
  "matches lib ctx ip (emptyRule\<lparr>Negation := True, All' := True\<rparr>)"
  "matches lib ctx ip (emptyRule\<lparr>Network := Some net10\<rparr>) = Contains net10 ip"
  "\<not> aborts lib ctx ip (emptyRule\<lparr>Negation := True, All' := True\<rparr>)"
  "\<not> aborts lib ctx ip (emptyRule\<lparr>Network := Some net10\<rparr>)"
  by (simp_all add: matches_def aborts_def rule_outcome_def Allow_item_def emptyRule_def)

lemma Allow_two_rules: "Allow lib two_rules ctx ip = (\<not> Contains net10 ip)"
proof -
  let ?w = "emptyRule\<lparr>Negation := True, All' := True\<rparr>"
  let ?n = "emptyRule\<lparr>Network := Some net10\<rparr>"
  have f: "filter (matches lib ctx ip) (List two_rules) =
      (if Contains net10 ip then [?w, ?n] else [?w])"
    by (simp add: two_rules_def matches_two_rules)
  have na: "\<not> list_ex (aborts lib ctx ip) (List two_rules)"
    by (simp add: two_rules_def matches_two_rules)
  have neg: "Negation ?w" "\<not> Negation ?n"
    by (simp_all add: emptyRule_def)
  show ?thesis
    unfolding Allow_last_match f using na neg by (simp add: last_match_wins_def)
qed

text \<open>
  C5: with the RuleSet parsed from the two lines \<open>!*\<close> and \<open>10.0.0.0/8\<close>, Allow
  denies 10.1.2.3 and allows 8.8.8.8; in general, when every rule is considered (no rule
  makes Allow return early), the last matching rule determines the result. As
  amended: the result is \<open>allow := negated\<close> of the last matching rule (a match that
  is not negated denies, a negated match allows), and allow when no rule matches.
\<close>

theorem Allow_last_match_wins:
  assumes "ParseCIDR lib ''10.0.0.0/8'' = Inr net10"
  shows "ParseBlacklist lib two_lines = Inr two_rules \<and>
         Allow lib two_rules ctx ip_10_1_2_3 = False \<and>
         Allow lib two_rules ctx (in16 ip_10_1_2_3) = False \<and>
         Allow lib two_rules ctx ip_8_8_8_8 = True \<and>
         Allow lib two_rules ctx (in16 ip_8_8_8_8) = True \<and>
         (\<not> list_ex (aborts lib ctx' ip) (List b) \<longrightarrow>
            Allow lib b ctx' ip = last_match_wins (filter (matches lib ctx' ip) (List b)))"
proof -
  have parsed: "ParseBlacklist lib two_lines = Inr two_rules"
    using assms by (rule ParseBlacklist_two_lines)
  have example: "Allow lib two_rules ctx ip_10_1_2_3 = False"
    "Allow lib two_rules ctx (in16 ip_10_1_2_3) = False"
    "Allow lib two_rules ctx ip_8_8_8_8 = True"
    "Allow lib two_rules ctx (in16 ip_8_8_8_8) = True"
    by (simp_all add: Allow_two_rules Contains_net10)
  have general: "\<not> list_ex (aborts lib ctx' ip) (List b) \<longrightarrow>
      Allow lib b ctx' ip = last_match_wins (filter (matches lib ctx' ip) (List b))"
    by (simp add: Allow_last_match)
  show ?thesis
    using parsed example general by blast
qed

theorem Allow_last_match_wins_witness:
  "ParseCIDR offline_lib ''10.0.0.0/8'' = Inr net10 \<and>
   ParseBlacklist offline_lib two_lines = Inr two_rules \<and>
   Allow offline_lib two_rules no_databases ip_10_1_2_3 = False \<and>
   Allow offline_lib two_rules no_databases (in16 ip_10_1_2_3) = False \<and>
   Allow offline_lib two_rules no_databases ip_8_8_8_8 = True \<and>
   Allow offline_lib two_rules no_databases (in16 ip_8_8_8_8) = True \<and>
   \<not> list_ex (aborts offline_lib no_databases ip_8_8_8_8) (List two_rules) \<and>
   Allow offline_lib two_rules no_databases ip_8_8_8_8 =
     last_match_wins (filter (matches offline_lib no_databases ip_8_8_8_8) (List two_rules))"
proof -
  have h: "ParseCIDR offline_lib ''10.0.0.0/8'' = Inr net10"
    by (simp add: offline_lib_def)
  have n: "\<not> list_ex (aborts offline_lib no_databases ip_8_8_8_8) (List two_rules)"
    by (simp add: two_rules_def matches_two_rules)
  show ?thesis
    using h n
      Allow_last_match_wins [OF h, of no_databases no_databases ip_8_8_8_8 two_rules]
    by blast
qed

text \<open>
  The claim as stated, with \<open>allow := not negated\<close>, fails on its own example: for
  8.8.8.8 the last (and only) matching rule is the negated wildcard, \<open>not negated\<close>
  is deny, and Allow allows.
\<close>

theorem Allow_not_negated_counterexample:
  "ParseBlacklist offline_lib two_lines = Inr two_rules \<and>
   \<not> list_ex (aborts offline_lib no_databases ip_8_8_8_8) (List two_rules) \<and>
   Allow offline_lib two_rules no_databases ip_8_8_8_8 \<noteq>
     spec_last_match_wins (filter (matches offline_lib no_databases ip_8_8_8_8) (List two_rules))"
proof -
  have h: "ParseCIDR offline_lib ''10.0.0.0/8'' = Inr net10"
    by (simp add: offline_lib_def)
  have m: "filter (matches offline_lib no_databases ip_8_8_8_8) (List two_rules) =
      [emptyRule\<lparr>Negation := True, All' := True\<rparr>]"
    by (simp add: two_rules_def matches_two_rules Contains_net10)
  have s: "spec_last_match_wins [emptyRule\<lparr>Negation := True, All' := True\<rparr>] = False"
    by (simp add: spec_last_match_wins_def)
  have a: "Allow offline_lib two_rules no_databases ip_8_8_8_8 = True"
    by (simp add: Allow_two_rules Contains_net10)
  have n: "\<not> list_ex (aborts offline_lib no_databases ip_8_8_8_8) (List two_rules)"
    by (simp add: two_rules_def matches_two_rules)
  show ?thesis
    using ParseBlacklist_two_lines [OF h] n by (simp add: m s a)
qed

section \<open>Properties of ParseBlacklist\<close>

text \<open>A byte of ASCII that is no space is kept by \<open>TrimSpace\<close> at either end.\<close>

definition plainByte :: "char \<Rightarrow> bool" where
  "plainByte c = ((of_char c :: nat) < 128 \<and> \<not> asciiSpace c)"

lemma dropSpaces_plain: "plainByte a \<Longrightarrow> dropSpaces r (a # s) = a # s"
proof -
  assume p: "plainByte a"
  then have n: "a \<noteq> CHR 0xC2" "a \<noteq> CHR 0xE1" "a \<noteq> CHR 0xE2" "a \<noteq> CHR 0xE3"
    "a \<noteq> CHR 0x85" "a \<noteq> CHR 0xA0" "a \<noteq> CHR 0x80" "a \<noteq> CHR 0xA8" "a \<noteq> CHR 0xA9"
    "a \<noteq> CHR 0xAF" "a \<noteq> CHR 0x9F" "\<not> 128 \<le> (of_char a :: nat)" "\<not> asciiSpace a"
    by (auto simp: plainByte_def)
  show ?thesis
  proof (cases s)
    case Nil
    then show ?thesis using n by simp
  next
    case (Cons b t)
    show ?thesis
    proof (cases t)
      case Nil
      with Cons show ?thesis using n by (simp add: isSpace2_def)
    next
      case (Cons c u)
      with \<open>s = b # t\<close> show ?thesis using n by (simp add: isSpace2_def isSpace3_def)
    qed
  qed
qed

lemma TrimSpace_plain:
  assumes "s \<noteq> []" and "plainByte (hd s)" and "plainByte (last s)"
  shows "TrimSpace s = s"
proof -
  obtain a t where s: "s = a # t"
    using assms(1) by (cases s) auto
  have a: "dropSpaces False s = s"
    using assms(2) unfolding s by (simp add: dropSpaces_plain)
  obtain z u where r: "rev s = z # u"
    using assms(1) by (cases "rev s") auto
  have "z = last s"
    using r assms(1) by (metis hd_rev list.sel(1))
  then have b: "dropSpaces True (rev s) = rev s"
    using assms(3) unfolding r by (simp add: dropSpaces_plain)
  show ?thesis
    by (simp add: TrimSpace_def a b)
qed

text \<open>
  A line without comment, surrounding space or negation mark that is shorter than six
  bytes and is not \<open>*\<close> panics at \<open>line[:6]\<close>.
\<close>

lemma parseLine_short:
  assumes "CHR ''#'' \<notin> set l" and "l \<noteq> []" and "plainByte (hd l)" and "plainByte (last l)"
    and "hd l \<noteq> CHR ''!''" and "l \<noteq> ''*''" and "length l < 6"
  shows "parseLine lib l = Inl SliceBoundsOutOfRange"
proof -
  have t: "TrimSpace l = l"
    using assms(2-4) by (rule TrimSpace_plain)
  obtain c cs where l: "l = c # cs"
    using assms(2) by (cases l) auto
  show ?thesis
    using assms(1,5,6,7) t unfolding l
    by (simp add: parseLine_def IndexByte_def Let_def)
qed

lemma short_lines:
  "parseLine lib ''1.2.3'' = Inl SliceBoundsOutOfRange"
  "parseLine lib ''@ x'' = Inl SliceBoundsOutOfRange"
  "parseLine lib ''a.io'' = Inl SliceBoundsOutOfRange"
  "parseLine lib ''::1'' = Inl SliceBoundsOutOfRange"
  "parseLine lib ''~a.*'' = Inl SliceBoundsOutOfRange"
  "parseLine lib ''@1,2'' = Inl SliceBoundsOutOfRange"
  by (rule parseLine_short; simp add: plainByte_def asciiSpace_def)+

lemma parseLine_wildcard: "parseLine lib ''*'' = Inr (Some (emptyRule\<lparr>All' := True\<rparr>))"
  by (simp add: parseLine_def IndexByte_def TrimSpace_examples)

text \<open>
  C4: ParseBlacklist is total: for every input text, in particular for every non-blank
  trimmed line shorter than six characters, parsing returns a Blacklist without
  panicking. The code slices \<open>line[:6]\<close> without checking the length: the bare IP
  fragment \<open>1.2.3\<close> and the malformed geofence \<open>@ x\<close> panic, and one short line
  (here the hostname \<open>a.io\<close>) aborts the parsing of the whole text.
\<close>

theorem ParseBlacklist_short_line_panics:
  "ParseBlacklist lib ''1.2.3'' = Inl SliceBoundsOutOfRange \<and>
   ParseBlacklist lib ''@ x'' = Inl SliceBoundsOutOfRange \<and>
   ParseBlacklist lib (''*'' @ [CHR 0x0A] @ ''a.io'' @ [CHR 0x0A] @ ''10.0.0.0/8'') =
     Inl SliceBoundsOutOfRange"
  by (simp add: ParseBlacklist_def short_lines parseLine_wildcard)

text \<open>
  C7: for every well-formed rule line, parsing it and rendering the result yields text
  that parses back to the same rule. For the well-formed lines \<open>::1\<close> (an address),
  \<open>~a.*\<close> (a pattern) and \<open>@1,2\<close> (a geofence), each shorter than six bytes,
  the code renders nothing: ParseBlacklist panics.
\<close>

theorem ParseBlacklist_short_rule_not_rendered:
  "ParseBlacklist lib ''::1'' = Inl SliceBoundsOutOfRange \<and>
   ParseBlacklist lib ''~a.*'' = Inl SliceBoundsOutOfRange \<and>
   ParseBlacklist lib ''@1,2'' = Inl SliceBoundsOutOfRange"
  by (simp add: ParseBlacklist_def short_lines)

text \<open>
  Apart from the panic, a hostname line is lower-cased after the test for the prefix
  \<open>ipcat\<close>: the line \<open>IPCAT foo\<close> is the hostname rule \<open>ipcat foo\<close>, which
  renders to a line that parses to a Category rule.
\<close>

lemma ToLower_IPCAT_foo: "ToLower lib ''IPCAT foo'' = ''ipcat foo''"
proof -
  have "map toLowerByte ''IPCAT foo'' = ''ipcat foo''"
    by code_simp
  then show ?thesis
    by (simp add: ToLower_def)
qed

lemma hostname_renders_to_category:
  fixes lib :: golib
  defines "lib' \<equiv> lib\<lparr>ParseCIDR := (\<lambda>s. Inl ''invalid CIDR address''), ParseIP := (\<lambda>s. None)\<rparr>"
  shows "ParseBlacklist lib' ''IPCAT foo'' = Inr \<lparr>List = [emptyRule\<lparr>Hostname := ''ipcat foo''\<rparr>]\<rparr>"
    and "BlacklistRule_String lib' (emptyRule\<lparr>Hostname := ''ipcat foo''\<rparr>) = ''ipcat foo # Hostname''"
    and "ParseBlacklist lib' ''ipcat foo # Hostname'' = Inr \<lparr>List = [emptyRule\<lparr>IPCat := ''foo''\<rparr>]\<rparr>"
  by (simp_all add: lib'_def ParseBlacklist_def parseLine_def IndexByte_def TrimSpace_examples
        ToLower_IPCAT_foo Add_def BlacklistRule_String_def emptyRule_def)

section \<open>Allow does not write to the rules\<close>

lemma Allow_loop_mem_frame:
  "snd (Allow_loop_mem lib ctx ip mem allow user category ps) = mem"
proof (induction ps arbitrary: allow user category)
  case Nil
  show ?case by simp
next
  case (Cons p ps)
  show ?case
  proof (cases "rules mem p")
    case None
    then show ?thesis by simp
  next
    case (Some item)
    show ?thesis
    proof (cases "Allow_item lib ctx ip user category item")
      case (Inl r)
      with Some show ?thesis by simp
    next
      case (Inr t)
      obtain m u c where "t = (m, u, c)" by (cases t)
      with Some Inr show ?thesis by (simp add: Cons.IH)
    qed
  qed
qed

lemma Allow_loop_mem_value:
  "list_all (\<lambda>p. rules mem p \<noteq> None) ps \<Longrightarrow>
   fst (Allow_loop_mem lib ctx ip mem allow user category ps) =
     Inr (Allow_loop lib ctx ip allow user category (map (\<lambda>p. the (rules mem p)) ps))"
proof (induction ps arbitrary: allow user category)
  case Nil
  show ?case by simp
next
  case (Cons p ps)
  obtain item where item: "rules mem p = Some item"
    using Cons.prems by auto
  have rest: "list_all (\<lambda>p. rules mem p \<noteq> None) ps"
    using Cons.prems by simp
  show ?case
  proof (cases "Allow_item lib ctx ip user category item")
    case (Inl r)
    with item show ?thesis by simp
  next
    case (Inr t)
    obtain m u c where "t = (m, u, c)" by (cases t)
    with item Inr show ?thesis by (simp add: Cons.IH [OF rest])
  qed
qed

lemma Allow_mem_frame: "snd (Allow_mem lib mem b ctx ip) = mem"
  by (simp add: Allow_mem_def Allow_loop_mem_frame split: option.splits)

lemma Allow_mem_value:
  "load_Blacklist mem b = Some bl \<Longrightarrow> fst (Allow_mem lib mem b ctx ip) = Inr (Allow lib bl ctx ip)"
  by (auto simp: load_Blacklist_def Allow_mem_def Allow_def Allow_loop_mem_value
      split: option.splits if_splits)

lemma Access_keeps_rules:
  assumes "Get env name = Some entry" and "\<not> AccessTrain entry"
    and "snd (Access lib env ctx name addr) = Some entry'"
  shows "AccessBlacklist entry' = AccessBlacklist entry"
  using assms
  by (auto simp: Access_def Let_def split: sum.splits option.splits if_splits prod.splits)

lemma Access_training_appends:
  assumes "Get env name = Some entry" and "AccessTrain entry"
    and "snd (Access lib env ctx name addr) = Some entry'"
  shows "take (length (List (AccessBlacklist entry))) (List (AccessBlacklist entry')) =
           List (AccessBlacklist entry) \<and>
         length (List (AccessBlacklist entry)) < length (List (AccessBlacklist entry'))"
  using assms
  by (auto simp: Access_def Let_def Add_def split: sum.splits option.splits if_splits prod.splits)

text \<open>
  C10: Allow is read-only with respect to its RuleSet: after Allow returns, the list of
  rules and every rule in it are unchanged; only the training path of the access gate
  appends rules. In the store, Allow leaves every blacklist and every rule as it was and
  returns what Allow returns on the blacklist stored at its receiver; the entry that
  Access commits has the rules of the stored entry unless the entry is in training
  mode, where the stored rules are kept and new ones are added behind them.
\<close>

theorem Allow_read_only:
  "snd (Allow_mem lib mem b ctx ip) = mem \<and>
   (load_Blacklist mem b = Some bl \<longrightarrow>
      fst (Allow_mem lib mem b ctx ip) = Inr (Allow lib bl ctx ip)) \<and>
   (Get env name = Some entry \<and> \<not> AccessTrain entry \<and>
    snd (Access lib env ctx name addr) = Some entry' \<longrightarrow>
      AccessBlacklist entry' = AccessBlacklist entry) \<and>
   (Get env name = Some entry \<and> AccessTrain entry \<and>
    snd (Access lib env ctx name addr) = Some entry' \<longrightarrow>
      take (length (List (AccessBlacklist entry))) (List (AccessBlacklist entry')) =
        List (AccessBlacklist entry) \<and>
      length (List (AccessBlacklist entry)) < length (List (AccessBlacklist entry')))"
  using Allow_mem_frame Allow_mem_value Access_keeps_rules Access_training_appends
  by meson

lemma load_example_store: "load_Blacklist example_store 1 = Some two_rules"
  by (simp add: load_Blacklist_def example_store_def two_rules_def)

lemma Access_example:
  "Access offline_lib example_env no_databases ''doc'' ''10.1.2.3:4711'' =
     (None, Some (example_entry\<lparr>AccessBlacklistCount := 1\<rparr>))"
proof -
  have ip: "ParseIP offline_lib ''10.1.2.3'' = Some (in16 ip_10_1_2_3)"
    by (simp add: offline_lib_def in16_def ip_10_1_2_3_def)
  have deny: "\<not> Allow offline_lib (AccessBlacklist example_entry) no_databases (in16 ip_10_1_2_3)"
    by (simp add: example_entry_def Allow_two_rules Contains_net10)
  have entry: "\<not> AccessTrain example_entry" "AccessBlacklistCount example_entry = 0"
    by (simp_all add: example_entry_def)
  show ?thesis
    using deny entry by (simp add: Access_def example_env_def ip)
qed

lemma Access_example_training:
  "Access offline_lib training_env no_databases ''doc'' ''10.1.2.3:4711'' =
     (None, Some trained_entry)"
proof -
  have ip: "ParseIP offline_lib ''10.1.2.3'' = Some (in16 ip_10_1_2_3)"
    by (simp add: offline_lib_def in16_def ip_10_1_2_3_def)
  show ?thesis
    by (simp add: Access_def training_env_def example_env_def ip training_entry_def
          trained_entry_def example_entry_def Add_def no_databases_def)
qed

theorem Allow_read_only_witness:
  "snd (Allow_mem offline_lib example_store 1 no_databases ip_8_8_8_8) = example_store \<and>
   load_Blacklist example_store 1 = Some two_rules \<and>
   fst (Allow_mem offline_lib example_store 1 no_databases ip_8_8_8_8) =
     Inr (Allow offline_lib two_rules no_databases ip_8_8_8_8) \<and>
   Get example_env ''doc'' = Some example_entry \<and> \<not> AccessTrain example_entry \<and>
   snd (Access offline_lib example_env no_databases ''doc'' ''10.1.2.3:4711'') =
     Some (example_entry\<lparr>AccessBlacklistCount := 1\<rparr>) \<and>
   AccessBlacklist (example_entry\<lparr>AccessBlacklistCount := 1\<rparr>) = AccessBlacklist example_entry \<and>
   Get training_env ''doc'' = Some training_entry \<and> AccessTrain training_entry \<and>
   snd (Access offline_lib training_env no_databases ''doc'' ''10.1.2.3:4711'') =
     Some trained_entry \<and>
   take (length (List (AccessBlacklist training_entry))) (List (AccessBlacklist trained_entry)) =
     List (AccessBlacklist training_entry) \<and>
   length (List (AccessBlacklist training_entry)) < length (List (AccessBlacklist trained_entry))"
proof -
  have h1: "load_Blacklist example_store 1 = Some two_rules"
    by (rule load_example_store)
  have h2: "Get example_env ''doc'' = Some example_entry"
    by (simp add: example_env_def)
  have h3: "\<not> AccessTrain example_entry"
    by (simp add: example_entry_def)
  have h4: "snd (Access offline_lib example_env no_databases ''doc'' ''10.1.2.3:4711'') =
      Some (example_entry\<lparr>AccessBlacklistCount := 1\<rparr>)"
    by (simp add: Access_example)
  have h5: "Get training_env ''doc'' = Some training_entry"
    by (simp add: training_env_def)
  have h6: "AccessTrain training_entry"
    by (simp add: training_entry_def)
  have h7: "snd (Access offline_lib training_env no_databases ''doc'' ''10.1.2.3:4711'') =
      Some trained_entry"
    by (simp add: Access_example_training)
  show ?thesis
    using h1 h2 h3 h4 h5 h6 h7
      Allow_read_only [of offline_lib example_store 1 no_databases ip_8_8_8_8 two_rules
        example_env "''doc''" example_entry "''10.1.2.3:4711''"
        "example_entry\<lparr>AccessBlacklistCount := 1\<rparr>"]
      Allow_read_only [of offline_lib example_store 1 no_databases ip_8_8_8_8 two_rules
        training_env "''doc''" training_entry "''10.1.2.3:4711''" trained_entry]
    by blast
qed

end
